theory Spec2Isabelle
  imports Main "HOL-Library.Word" "HOL-Library.Log_Nat"
begin

section \<open>JavaScript strings\<close>

text \<open>
  A JavaScript string is a sequence of UTF-16 code units; \<open>s[i]\<close>, \<open>s.length\<close> and the
  regular expressions of \<open>exportService.ts\<close> (none has the \<open>u\<close> flag) all work on code
  units. A code unit is a 16-bit word. \<open>js\<close> turns an ASCII literal of the source into
  its code units.
\<close>

type_synonym jschar = "16 word"
type_synonym jsstring = "jschar list"

definition js :: "string \<Rightarrow> jsstring" where
  "js s = map of_char s"

text \<open>A string value is truthy when it is defined and not empty.\<close>

fun truthy :: "jsstring option \<Rightarrow> bool" where
  "truthy None = False"
| "truthy (Some s) = (s \<noteq> [])"

text \<open>\<open>re.test(s)\<close> for a regular expression that is one character class.\<close>

definition test :: "(jschar \<Rightarrow> bool) \<Rightarrow> jsstring \<Rightarrow> bool" where
  "test re s = list_ex re s"

section \<open>Script detection\<close>

text \<open>\<open>/[\u0980-\u09FF]/\<close>\<close>

definition BENGALI_REGEX_CHAR :: "jschar \<Rightarrow> bool" where
  "BENGALI_REGEX_CHAR c \<longleftrightarrow> 0x0980 \<le> c \<and> c \<le> 0x09FF"

text \<open>\<open>/[\u0600-\u06FF\u0750-\u077F\u08A0-\u08FF]/\<close>\<close>

definition ARABIC_REGEX_CHAR :: "jschar \<Rightarrow> bool" where
  "ARABIC_REGEX_CHAR c \<longleftrightarrow>
     (0x0600 \<le> c \<and> c \<le> 0x06FF) \<or> (0x0750 \<le> c \<and> c \<le> 0x077F) \<or> (0x08A0 \<le> c \<and> c \<le> 0x08FF)"

text \<open>\<open>/[a-zA-Z]/\<close>\<close>

definition LATIN_REGEX_CHAR :: "jschar \<Rightarrow> bool" where
  "LATIN_REGEX_CHAR c \<longleftrightarrow> (0x61 \<le> c \<and> c \<le> 0x7A) \<or> (0x41 \<le> c \<and> c \<le> 0x5A)"

text \<open>\<open>/[0-9]/\<close>, which is also what \<open>\d\<close> matches.\<close>

definition DIGIT_REGEX_CHAR :: "jschar \<Rightarrow> bool" where
  "DIGIT_REGEX_CHAR c \<longleftrightarrow> 0x30 \<le> c \<and> c \<le> 0x39"

text \<open>
  The class \<open>\s\<close> of ECMAScript: tab, line feed, vertical tab, form feed, carriage
  return, space, no-break space, U+1680, U+2000 to U+200A, U+2028, U+2029, U+202F, U+205F,
  U+3000 and U+FEFF.
\<close>

definition whitespace :: "jschar \<Rightarrow> bool" where
  "whitespace c \<longleftrightarrow>
     c \<in> set [0x09, 0x0A, 0x0B, 0x0C, 0x0D, 0x20, 0xA0, 0x1680, 0x2028, 0x2029, 0x202F, 0x205F,
              0x3000, 0xFEFF]
     \<or> (0x2000 \<le> c \<and> c \<le> 0x200A)"

text \<open>
  \<open>/[\s.,!?;:'"(){}\[\]\-@#$%^&*+=_<>/\\|~`]/\<close>: white space and the listed
  punctuation, in the order of the source.
\<close>

definition COMMON_PUNCT_SPACE_REGEX_CHAR :: "jschar \<Rightarrow> bool" where
  "COMMON_PUNCT_SPACE_REGEX_CHAR c \<longleftrightarrow>
     whitespace c \<or>
     c \<in> set [0x2E, 0x2C, 0x21, 0x3F, 0x3B, 0x3A, 0x27, 0x22, 0x28, 0x29, 0x7B, 0x7D, 0x5B, 0x5D,
              0x2D, 0x40, 0x23, 0x24, 0x25, 0x5E, 0x26, 0x2A, 0x2B, 0x3D, 0x5F, 0x3C, 0x3E, 0x2F,
              0x5C, 0x7C, 0x7E, 0x60]"

datatype ScriptType = bengali | arabic | latin | digit | punct_space | other

definition detectCharScript :: "jschar \<Rightarrow> ScriptType" where
  "detectCharScript c =
     (if BENGALI_REGEX_CHAR c then bengali
      else if ARABIC_REGEX_CHAR c then arabic
      else if LATIN_REGEX_CHAR c then latin
      else if DIGIT_REGEX_CHAR c then digit
      else if COMMON_PUNCT_SPACE_REGEX_CHAR c then punct_space
      else other)"

section \<open>Script segmentation of one line\<close>

datatype Language = en | bn | ar | unknown

record Segment =
  seg_text :: jsstring
  seg_script :: ScriptType

text \<open>
  The \<open>for\<close> loop of \<open>createTextRunsFromSpans\<close> over the characters of \<open>lineText\<close>. The
  state is \<open>segments\<close>, \<open>currentSegmentText\<close> and \<open>currentSegmentScript\<close>; the last argument
  is the part of the line still to be read.
\<close>

fun segmentLoop ::
  "Segment list \<Rightarrow> jsstring \<Rightarrow> ScriptType \<Rightarrow> jsstring \<Rightarrow> Segment list \<times> jsstring \<times> ScriptType"
where
  "segmentLoop segments currentSegmentText currentSegmentScript [] =
     (segments, currentSegmentText, currentSegmentScript)"
| "segmentLoop segments currentSegmentText currentSegmentScript (c # rest) =
     (let charScript = detectCharScript c;
          effectiveJoinScript =
            (if charScript = punct_space \<or> charScript = digit then currentSegmentScript
             else charScript)
      in if effectiveJoinScript = currentSegmentScript
         then segmentLoop segments (currentSegmentText @ [c]) currentSegmentScript rest
         else segmentLoop
                (if currentSegmentText \<noteq> []
                 then segments @ [\<lparr>seg_text = currentSegmentText, seg_script = currentSegmentScript\<rparr>]
                 else segments)
                [c] charScript rest)"

text \<open>The starting script of a line, from its first character and the declared language.\<close>

definition firstCharScript :: "Language \<Rightarrow> jsstring \<Rightarrow> ScriptType" where
  "firstCharScript blockLanguageFromAI lineText =
     (let d = detectCharScript (hd lineText)
      in if d = punct_space \<or> d = other \<or> d = digit
         then (if blockLanguageFromAI = bn
                  \<and> \<not> (test LATIN_REGEX_CHAR lineText \<or> test ARABIC_REGEX_CHAR lineText)
               then bengali
               else if blockLanguageFromAI = ar
                  \<and> \<not> (test LATIN_REGEX_CHAR lineText \<or> test BENGALI_REGEX_CHAR lineText)
               then arabic
               else latin)
         else d)"

text \<open>
  The \<open>segments\<close> array that \<open>createTextRunsFromSpans\<close> builds for one line. The first
  character is read only when the line is not empty.
\<close>

definition segments :: "Language \<Rightarrow> jsstring \<Rightarrow> Segment list" where
  "segments blockLanguageFromAI lineText =
     (if lineText = [] then []
      else (case segmentLoop [] [] (firstCharScript blockLanguageFromAI lineText) lineText of
              (segs, currentSegmentText, currentSegmentScript) \<Rightarrow>
                if currentSegmentText \<noteq> []
                then segs @ [\<lparr>seg_text = currentSegmentText, seg_script = currentSegmentScript\<rparr>]
                else segs))"

section \<open>Numbers\<close>

text \<open>
  A JavaScript number is an IEEE 754 binary64 value. \<open>Num q\<close> is the finite value \<open>q\<close>
  (negative zero is not told apart from zero). \<open>toDouble\<close> rounds a rational to the
  nearest binary64 value, ties to even, which is what ECMAScript prescribes for the result
  of \<open>parseInt\<close>, \<open>parseFloat\<close>, \<open>*\<close> and \<open>/\<close>: with \<open>e\<close> the binary exponent of
  the value (not below the smallest normal exponent), the result is the nearest multiple
  of \<open>2 ^ (e - 52)\<close>, and it is infinite from \<open>2 ^ 1024\<close> on. (ECMAScript allows
  \<open>parseInt\<close> and \<open>parseFloat\<close> to ignore digits after the twentieth significant one;
  the model keeps them.)
\<close>

datatype number = Num rat | Infinity | NegInfinity | NaN

definition pow2 :: "int \<Rightarrow> rat" where
  "pow2 k = (if 0 \<le> k then 2 ^ nat k else 1 / 2 ^ nat (- k))"

text \<open>The binary exponent of a positive rational: the \<open>e\<close> with \<open>2 ^ e \<le> a < 2 ^ (e + 1)\<close>.\<close>

definition floorLog2 :: "rat \<Rightarrow> int" where
  "floorLog2 a =
     (case quotient_of a of (n, d) \<Rightarrow>
        let k = bitlen n - bitlen d in if pow2 k \<le> a then k else k - 1)"

definition roundTiesToEven :: "rat \<Rightarrow> int" where
  "roundTiesToEven q =
     (let f = \<lfloor>q\<rfloor>; r = q - of_int f
      in if r < 1 / 2 then f else if 1 / 2 < r then f + 1 else if even f then f else f + 1)"

definition toDouble :: "rat \<Rightarrow> number" where
  "toDouble q =
     (if q = 0 then Num 0
      else let a = \<bar>q\<bar>; e = max (floorLog2 a) (- 1022); ulp = pow2 (e - 52);
               v = of_int (roundTiesToEven (a / ulp)) * ulp
           in if pow2 1024 \<le> v then (if 0 < q then Infinity else NegInfinity)
              else Num (if 0 < q then v else - v))"

text \<open>\<open>x * k\<close> and \<open>x / k\<close> for a positive literal \<open>k\<close> of the source (2 and 20).\<close>

fun times_literal :: "number \<Rightarrow> rat \<Rightarrow> number" where
  "times_literal (Num q) k = toDouble (q * k)"
| "times_literal x k = x"



text \<open>Truthiness of a number, and \<open>x >= k\<close>, \<open>x > k\<close> against a literal.\<close>

fun number_truthy :: "number \<Rightarrow> bool" where
  "number_truthy (Num q) = (q \<noteq> 0)"
| "number_truthy NaN = False"
| "number_truthy x = True"

fun number_ge :: "number \<Rightarrow> rat \<Rightarrow> bool" where
  "number_ge (Num q) k = (k \<le> q)"
| "number_ge Infinity k = True"
| "number_ge x k = False"


section \<open>Unit and token parsing\<close>

definition digitValue :: "jschar \<Rightarrow> nat" where
  "digitValue c = unat c - 48"

definition digitsValue :: "jsstring \<Rightarrow> nat" where
  "digitsValue ds = foldl (\<lambda>a c. 10 * a + digitValue c) 0 ds"

text \<open>\<open>parseInt(ds, 10)\<close> for a non-empty string of decimal digits.\<close>

definition parseInt :: "jsstring \<Rightarrow> number" where
  "parseInt ds = toDouble (of_nat (digitsValue ds))"


text \<open>\<open>s.match(/^pt(\d+)$/)\<close>: the captured digits, or no match.\<close>

definition match_pt :: "jsstring \<Rightarrow> jsstring option" where
  "match_pt s =
     (if take 2 s = js ''pt'' \<and> drop 2 s \<noteq> [] \<and> list_all DIGIT_REGEX_CHAR (drop 2 s)
      then Some (drop 2 s) else None)"


definition parsePtStringToNumber :: "jsstring option \<Rightarrow> number \<Rightarrow> number" where
  "parsePtStringToNumber ptString defaultSize =
     (if \<not> truthy ptString then defaultSize
      else (case match_pt (the ptString) of
              Some ds \<Rightarrow> parseInt ds
            | None \<Rightarrow> defaultSize))"


datatype BlockType =
  "paragraph" | heading1 | heading2 | heading3 | heading4 | heading5 | heading6 | listItem

definition mapFontSizeToDocx :: "jsstring option \<Rightarrow> BlockType option \<Rightarrow> number" where
  "mapFontSizeToDocx category blockType =
     (let ptSize = parsePtStringToNumber category (Num 11);
          ptSize' =
            (if truthy category \<and> match_pt (the category) = None \<and> blockType \<noteq> None
             then (case the blockType of
                     heading1 \<Rightarrow> Num 22
                   | heading2 \<Rightarrow> Num 16
                   | heading3 \<Rightarrow> Num 13
                   | _ \<Rightarrow> Num 11)
             else ptSize)
      in times_literal ptSize' 2)"




section \<open>Font resolution\<close>

definition commonArabicFonts :: "jsstring list" where
  "commonArabicFonts =
     [js ''Noto Naskh Arabic'', js ''Noto Sans Arabic'', js ''Cairo'', js ''Lateef'',
      js ''Noto Kufi Arabic'', js ''Traditional Arabic'', js ''Arial Unicode MS'']"

datatype TargetApplication = word | gdocs

text \<open>
  The arguments are those of the source, in its order; the first and the fourth to sixth
  are not read by the body.
\<close>

definition mapFontFamilyToDocx ::
  "jsstring \<Rightarrow> ScriptType \<Rightarrow> jsstring option \<Rightarrow> number option \<Rightarrow> jsstring option \<Rightarrow> Language
   \<Rightarrow> TargetApplication \<Rightarrow> jsstring"
where
  "mapFontFamilyToDocx spanTextContentForRefOnly detectedSegmentScript spanFontFamilyKeyFromAI
     spanFontWeight blockFontFamilySuggestionFromAI blockLanguageFromAI targetApplication =
     (if targetApplication = word
      then (case detectedSegmentScript of
              bengali \<Rightarrow> js ''SutonnyOMJ''
            | latin \<Rightarrow> js ''Times New Roman''
            | digit \<Rightarrow> js ''Times New Roman''
            | punct_space \<Rightarrow> js ''Times New Roman''
            | arabic \<Rightarrow>
                if truthy spanFontFamilyKeyFromAI
                   \<and> the spanFontFamilyKeyFromAI \<in> set commonArabicFonts
                then the spanFontFamilyKeyFromAI
                else if spanFontFamilyKeyFromAI = Some (js ''arabic-naskh'')
                        \<or> spanFontFamilyKeyFromAI = Some (js ''arabic'')
                then js ''Traditional Arabic''
                else if spanFontFamilyKeyFromAI = Some (js ''arabic-kufi'')
                then js ''Traditional Arabic''
                else if spanFontFamilyKeyFromAI = Some (js ''arabic-modern-sans'')
                then js ''Arial''
                else js ''Traditional Arabic''
            | other \<Rightarrow> js ''Calibri'')
      else (case detectedSegmentScript of
              bengali \<Rightarrow> js ''Tiro Bangla''
            | latin \<Rightarrow> js ''Open Sans''
            | digit \<Rightarrow> js ''Open Sans''
            | punct_space \<Rightarrow> js ''Open Sans''
            | arabic \<Rightarrow>
                if truthy spanFontFamilyKeyFromAI
                   \<and> the spanFontFamilyKeyFromAI \<in> set commonArabicFonts
                then the spanFontFamilyKeyFromAI
                else js ''Noto Naskh Arabic''
            | other \<Rightarrow> js ''Open Sans''))"

text \<open>
  The words of the specification of font resolution, to compare with the code: the curated
  font names of a script are the names the source lists for it (\<open>commonArabicFonts\<close> for
  Arabic, none for any other script), the fixed default of a profile for a script class is
  the font the code returns for it when the author gives no hint, and resolution returns
  the hint when it is a curated name of the script and the default otherwise.
\<close>

definition curatedFonts :: "ScriptType \<Rightarrow> jsstring list" where
  "curatedFonts script = (if script = arabic then commonArabicFonts else [])"

definition profileDefaultFont :: "TargetApplication \<Rightarrow> ScriptType \<Rightarrow> jsstring" where
  "profileDefaultFont targetProfile script =
     mapFontFamilyToDocx [] script None None None unknown targetProfile"

definition resolveFont_spec :: "ScriptType \<Rightarrow> jsstring option \<Rightarrow> TargetApplication \<Rightarrow> jsstring" where
  "resolveFont_spec script authorFontHint targetProfile =
     (case authorFontHint of
        Some hint \<Rightarrow>
          if hint \<in> set (curatedFonts script) then hint
          else profileDefaultFont targetProfile script
      | None \<Rightarrow> profileDefaultFont targetProfile script)"

section \<open>Text runs\<close>

datatype TextDecoration = none | underline | line_through

text \<open>
  The fields of \<open>TextSpan\<close> that the export reads (\<open>fontStyleAttributes\<close> and
  \<open>isUncertain\<close> are not read).
\<close>

record TextSpan =
  span_text :: jsstring
  isBold :: "bool option"
  isItalic :: "bool option"
  fontFamily :: "jsstring option"
  fontWeight :: "number option"
  color :: "jsstring option"
  textDecoration :: "TextDecoration option"

datatype UnderlineType = UNDERLINE_SINGLE

text \<open>The options object given to \<open>new TextRun\<close>; an option that is not set is \<open>None\<close>.\<close>

record TextRun =
  run_text :: "jsstring option"
  run_bold :: "bool option"
  run_italics :: "bool option"
  run_font :: "jsstring option"
  run_size :: "number option"
  run_color :: "jsstring option"
  run_underline :: "(UnderlineType \<times> jsstring) option"
  run_strike :: "bool option"
  run_break :: "nat option"

definition noOptions :: TextRun where
  "noOptions =
     \<lparr>run_text = None, run_bold = None, run_italics = None, run_font = None, run_size = None,
      run_color = None, run_underline = None, run_strike = None, run_break = None\<rparr>"

text \<open>\<open>new TextRun({ break: 1 })\<close>\<close>

definition breakRun :: TextRun where
  "breakRun = noOptions\<lparr>run_break := Some 1\<rparr>"

text \<open>The underline and strike options for a decoration.\<close>

fun mapTextDecorationToDocx ::
  "TextDecoration option \<Rightarrow> (UnderlineType \<times> jsstring) option \<times> bool option"
where
  "mapTextDecorationToDocx (Some underline) = (Some (UNDERLINE_SINGLE, js ''auto''), None)"
| "mapTextDecorationToDocx (Some line_through) = (None, Some True)"
| "mapTextDecorationToDocx d = (None, None)"

definition hexDigit :: "jschar \<Rightarrow> bool" where
  "hexDigit c \<longleftrightarrow>
     (0x30 \<le> c \<and> c \<le> 0x39) \<or> (0x41 \<le> c \<and> c \<le> 0x46) \<or> (0x61 \<le> c \<and> c \<le> 0x66)"

text \<open>\<open>/^#[0-9A-Fa-f]{lo,hi}$/.test(s)\<close>\<close>

definition testHexColor :: "nat \<Rightarrow> nat \<Rightarrow> jsstring \<Rightarrow> bool" where
  "testHexColor lo hi s =
     (case s of
        [] \<Rightarrow> False
      | c # hs \<Rightarrow> c = 0x23 \<and> lo \<le> length hs \<and> length hs \<le> hi \<and> list_all hexDigit hs)"

text \<open>\<open>s.replace("#", "")\<close>: the first \<open>#\<close> of \<open>s\<close>, if it has one, is removed.\<close>

definition replaceHash :: "jsstring \<Rightarrow> jsstring" where
  "replaceHash s = takeWhile (\<lambda>c. c \<noteq> 0x23) s @ drop 1 (dropWhile (\<lambda>c. c \<noteq> 0x23) s)"

text \<open>
  \<open>text.split(/\\n|\n/g)\<close>: the text is cut at every backslash followed by \<open>n\<close> and at
  every line feed. The first argument is the piece being read.
\<close>

fun splitLines :: "jsstring \<Rightarrow> jsstring \<Rightarrow> jsstring list" where
  "splitLines piece [] = [piece]"
| "splitLines piece [c] = (if c = 0x0A then [piece, []] else [piece @ [c]])"
| "splitLines piece (c # c' # rest) =
     (if c = 0x5C \<and> c' = 0x6E then piece # splitLines [] rest
      else if c = 0x0A then piece # splitLines [] (c' # rest)
      else splitLines (piece @ [c]) (c' # rest))"

text \<open>The \<open>TextRun\<close> made for one segment of a span.\<close>

definition segmentRun ::
  "TextSpan \<Rightarrow> jsstring option \<Rightarrow> jsstring option \<Rightarrow> Language \<Rightarrow> TargetApplication
   \<Rightarrow> BlockType option \<Rightarrow> Segment \<Rightarrow> TextRun"
where
  "segmentRun textSpan defaultFontSizeCategoryForBlock blockFontFamilySuggestionFromAI
     blockLanguageFromAI targetApplication defaultBlockType segment =
     (let decorationProps = mapTextDecorationToDocx (textDecoration textSpan);
          spanColor =
            (if truthy (color textSpan) \<and> the (color textSpan) \<noteq> js ''default''
                \<and> the (color textSpan) \<noteq> js ''inherit'' \<and> testHexColor 3 8 (the (color textSpan))
             then Some (replaceHash (the (color textSpan))) else None)
      in \<lparr>run_text = Some (seg_text segment),
          run_bold =
            Some (case fontWeight textSpan of
                    Some w \<Rightarrow>
                      if number_truthy w then number_ge w 600
                      else (case isBold textSpan of Some b \<Rightarrow> b | None \<Rightarrow> False)
                  | None \<Rightarrow> (case isBold textSpan of Some b \<Rightarrow> b | None \<Rightarrow> False)),
          run_italics = isItalic textSpan,
          run_font =
            Some (mapFontFamilyToDocx (seg_text segment) (seg_script segment) (fontFamily textSpan)
                    (fontWeight textSpan) blockFontFamilySuggestionFromAI blockLanguageFromAI
                    targetApplication),
          run_size = Some (mapFontSizeToDocx defaultFontSizeCategoryForBlock defaultBlockType),
          run_color = spanColor,
          run_underline = fst decorationProps,
          run_strike = snd decorationProps,
          run_break = None\<rparr>)"

text \<open>
  The body of \<open>textLines.forEach\<close>: the runs pushed for the line \<open>lineText\<close> at index
  \<open>lineIndex\<close> of the \<open>n\<close> lines of a span.
\<close>

definition lineRuns ::
  "TextSpan \<Rightarrow> jsstring option \<Rightarrow> jsstring option \<Rightarrow> Language \<Rightarrow> TargetApplication
   \<Rightarrow> BlockType option \<Rightarrow> nat \<Rightarrow> nat \<times> jsstring \<Rightarrow> TextRun list"
where
  "lineRuns textSpan defaultFontSizeCategoryForBlock blockFontFamilySuggestionFromAI
     blockLanguageFromAI targetApplication defaultBlockType n indexedLine =
     (case indexedLine of (lineIndex, lineText) \<Rightarrow>
        if lineText = [] \<and> 1 < n
        then (if lineIndex + 1 < n then [breakRun] else [])
        else map (segmentRun textSpan defaultFontSizeCategoryForBlock
                    blockFontFamilySuggestionFromAI blockLanguageFromAI targetApplication
                    defaultBlockType)
               (filter (\<lambda>segment. seg_text segment \<noteq> []) (segments blockLanguageFromAI lineText))
             @ (if lineIndex + 1 < n then [breakRun] else []))"

definition createTextRunsFromSpans ::
  "TextSpan list \<Rightarrow> jsstring option \<Rightarrow> jsstring option \<Rightarrow> Language \<Rightarrow> TargetApplication
   \<Rightarrow> BlockType option \<Rightarrow> TextRun list"
where
  "createTextRunsFromSpans spans defaultFontSizeCategoryForBlock blockFontFamilySuggestionFromAI
     blockLanguageFromAI targetApplication defaultBlockType =
     concat (map (\<lambda>textSpan.
                let textLines = splitLines [] (span_text textSpan)
                in concat (map (lineRuns textSpan defaultFontSizeCategoryForBlock
                                  blockFontFamilySuggestionFromAI blockLanguageFromAI
                                  targetApplication defaultBlockType (length textLines))
                             (enumerate 0 textLines)))
             spans)"

section \<open>Table cells\<close>





datatype VerticalMergeType = CONTINUE | RESTART













section \<open>Vocabulary of the properties and sample inputs\<close>

text \<open>The decimal digits of a natural number, most significant first, without leading zeros.\<close>

fun decimal :: "nat \<Rightarrow> jsstring" where
  "decimal n = (if n < 10 then [0x30 + of_nat n] else decimal (n div 10) @ [0x30 + of_nat (n mod 10)])"

declare decimal.simps [simp del]


text \<open>
  The text \<open>Price: 100Tk\<close> followed by a space and the Bengali digits five, zero, zero
  (U+09EB, U+09E6, U+09E6), and a span that holds it with no other attribute.
\<close>

definition price :: jsstring where
  "price = js ''Price: 100Tk '' @ [0x09EB, 0x09E6, 0x09E6]"

definition priceSpan :: TextSpan where
  "priceSpan =
     \<lparr>span_text = price, isBold = None, isItalic = None, fontFamily = None, fontWeight = None,
      color = None, textDecoration = None\<rparr>"






section \<open>Properties of the segmentation\<close>

lemma segmentLoop_concat:
  "segmentLoop segs cur s xs = (segs', cur', s') \<Longrightarrow>
   concat (map seg_text segs') @ cur' = concat (map seg_text segs) @ cur @ xs"
proof (induction xs arbitrary: segs cur s)
  case Nil
  then show ?case by simp
next
  case (Cons c xs)
  then show ?case
    by (auto simp: Let_def split: if_splits)
qed

text \<open>
  C4. Concatenating the texts of the segments of a line, in order, gives the line back,
  for every line (the empty one too) and every declared language.
\<close>

theorem segments_lossless:
  "concat (map seg_text (segments lang lineText)) = lineText"
proof (cases "segmentLoop [] [] (firstCharScript lang lineText) lineText")
  case (fields segs cur s)
  from segmentLoop_concat [OF this] show ?thesis
    by (auto simp: segments_def fields)
qed

text \<open>
  C4 on the line \<open>a1\<close> followed by the Bengali digit five, under \<open>bn\<close>.
\<close>

theorem segments_lossless_witness:
  "concat (map seg_text (segments bn [0x61, 0x31, 0x09EB])) = [0x61, 0x31, 0x09EB]"
  using segments_lossless [of bn "[0x61, 0x31, 0x09EB]"] .

lemma segmentLoop_minimal:
  assumes "segmentLoop segs cur s xs = (segs', cur', s')"
    and "\<forall>g\<in>set segs. seg_text g \<noteq> []"
    and "distinct_adj (map seg_script segs)"
    and "segs \<noteq> [] \<longrightarrow> cur \<noteq> [] \<and> seg_script (last segs) \<noteq> s"
  shows "(\<forall>g\<in>set segs'. seg_text g \<noteq> []) \<and> distinct_adj (map seg_script segs')
         \<and> (segs' \<noteq> [] \<longrightarrow> cur' \<noteq> [] \<and> seg_script (last segs') \<noteq> s')"
  using assms
proof (induction xs arbitrary: segs cur s)
  case Nil
  then show ?case by simp
next
  case (Cons c xs)
  show ?case
  proof (cases "(if detectCharScript c = punct_space \<or> detectCharScript c = digit then s
                 else detectCharScript c) = s")
    case True
    with Cons.prems(1) have "segmentLoop segs (cur @ [c]) s xs = (segs', cur', s')"
      by (simp add: Let_def)
    from Cons.IH [OF this] Cons.prems(2-4) show ?thesis by simp
  next
    case False
    let ?segs = "if cur \<noteq> [] then segs @ [\<lparr>seg_text = cur, seg_script = s\<rparr>] else segs"
    from False Cons.prems(1) have run: "segmentLoop ?segs [c] (detectCharScript c) xs = (segs', cur', s')"
      by (simp add: Let_def)
    from False have ne: "detectCharScript c \<noteq> s" by (auto split: if_splits)
    have "\<forall>g\<in>set ?segs. seg_text g \<noteq> []" using Cons.prems(2) by auto
    moreover have "distinct_adj (map seg_script ?segs)"
      using Cons.prems(3,4) by (auto simp: distinct_adj_append_iff last_map)
    moreover have "?segs \<noteq> [] \<longrightarrow> [c] \<noteq> [] \<and> seg_script (last ?segs) \<noteq> detectCharScript c"
      using Cons.prems(4) ne by auto
    ultimately show ?thesis using Cons.IH [OF run] by blast
  qed
qed

lemma firstCharScript_not_neutral:
  "firstCharScript lang lineText \<noteq> digit \<and> firstCharScript lang lineText \<noteq> punct_space"
  by (simp add: firstCharScript_def Let_def)

lemma segmentLoop_not_neutral:
  assumes "segmentLoop segs cur s xs = (segs', cur', s')"
    and "s \<noteq> digit \<and> s \<noteq> punct_space"
    and "\<forall>g\<in>set segs. seg_script g \<noteq> digit \<and> seg_script g \<noteq> punct_space"
  shows "(s' \<noteq> digit \<and> s' \<noteq> punct_space)
         \<and> (\<forall>g\<in>set segs'. seg_script g \<noteq> digit \<and> seg_script g \<noteq> punct_space)"
  using assms
proof (induction xs arbitrary: segs cur s)
  case Nil
  then show ?case by simp
next
  case (Cons c xs)
  show ?case
  proof (cases "(if detectCharScript c = punct_space \<or> detectCharScript c = digit then s
                 else detectCharScript c) = s")
    case True
    with Cons.prems(1) have "segmentLoop segs (cur @ [c]) s xs = (segs', cur', s')"
      by (simp add: Let_def)
    from Cons.IH [OF this Cons.prems(2,3)] show ?thesis .
  next
    case False
    let ?segs = "if cur \<noteq> [] then segs @ [\<lparr>seg_text = cur, seg_script = s\<rparr>] else segs"
    from False Cons.prems(1) have run: "segmentLoop ?segs [c] (detectCharScript c) xs = (segs', cur', s')"
      by (simp add: Let_def)
    from False have "detectCharScript c \<noteq> digit \<and> detectCharScript c \<noteq> punct_space"
      by (auto split: if_splits)
    moreover have "\<forall>g\<in>set ?segs. seg_script g \<noteq> digit \<and> seg_script g \<noteq> punct_space"
      using Cons.prems(2,3) by auto
    ultimately show ?thesis using Cons.IH [OF run] by blast
  qed
qed

lemma segmentLoop_absorb:
  "\<forall>c\<in>set xs. detectCharScript c = punct_space \<or> detectCharScript c = digit \<Longrightarrow>
   segmentLoop segs cur s xs = (segs, cur @ xs, s)"
  by (induction xs arbitrary: cur) (auto simp: Let_def)

lemma neutral_not_script:
  "detectCharScript c = punct_space \<or> detectCharScript c = digit \<Longrightarrow>
   \<not> LATIN_REGEX_CHAR c \<and> \<not> ARABIC_REGEX_CHAR c \<and> \<not> BENGALI_REGEX_CHAR c"
  by (auto simp: detectCharScript_def split: if_splits)

text \<open>
  C5. The segments of a line are minimal: no two neighbours have the same script class,
  and no segment has an empty text.
\<close>

theorem segments_minimal:
  "distinct_adj (map seg_script (segments lang lineText))
   \<and> (\<forall>g\<in>set (segments lang lineText). seg_text g \<noteq> [])"
proof (cases "segmentLoop [] [] (firstCharScript lang lineText) lineText")
  case (fields segs cur s)
  from segmentLoop_minimal [OF this] show ?thesis
    by (auto simp: segments_def fields distinct_adj_append_iff last_map)
qed

text \<open>
  C10. No segment of any line, under any declared language, has the script class
  \<open>digit\<close> or \<open>punct_space\<close>: such characters join the current segment, and
  the starting script of a line is never one of the two.
\<close>

theorem segments_never_neutral:
  "\<forall>g\<in>set (segments lang lineText). seg_script g \<noteq> digit \<and> seg_script g \<noteq> punct_space"
proof (cases "segmentLoop [] [] (firstCharScript lang lineText) lineText")
  case (fields segs cur s)
  from segmentLoop_not_neutral [OF this firstCharScript_not_neutral] show ?thesis
    by (auto simp: segments_def fields)
qed

text \<open>
  C6. A non-empty line made only of digits and of white space or punctuation, under the
  declared language \<open>bn\<close>, has exactly one segment, the whole line, of script class
  \<open>bengali\<close>.
\<close>

theorem neutral_line_bn:
  assumes "lineText \<noteq> []"
    and "\<forall>c\<in>set lineText. detectCharScript c = punct_space \<or> detectCharScript c = digit"
  shows "segments bn lineText = [\<lparr>seg_text = lineText, seg_script = bengali\<rparr>]"
proof -
  from assms(2) have "\<not> test LATIN_REGEX_CHAR lineText" "\<not> test ARABIC_REGEX_CHAR lineText"
    using neutral_not_script by (auto simp: test_def list_ex_iff)
  moreover from assms have "detectCharScript (hd lineText) = punct_space \<or> detectCharScript (hd lineText) = digit"
    by (cases lineText) auto
  ultimately have "firstCharScript bn lineText = bengali"
    by (auto simp: firstCharScript_def Let_def)
  with assms show ?thesis
    by (simp add: segments_def segmentLoop_absorb)
qed

section \<open>Properties of the number model and of the parsers\<close>

lemma roundTiesToEven_of_int: "roundTiesToEven (of_int z) = z"
  by (simp add: roundTiesToEven_def)

lemma pow2_pos: "0 < pow2 k"
  by (simp add: pow2_def)

lemma floorLog2_of_nat:
  assumes "0 < n"
  shows "floorLog2 (of_nat n) = bitlen (int n) - 1"
proof -
  have q: "quotient_of (of_nat n) = (int n, 1)"
    using quotient_of_int [of "int n"] by simp
  have b1: "bitlen 1 = 1"
    by (simp add: bitlen_alt_def)
  from assms have ge: "1 \<le> bitlen (int n)"
    by (auto simp: bitlen_alt_def)
  from assms bitlen_bounds [of "int n"] have "2 ^ nat (bitlen (int n) - 1) \<le> int n"
    by simp
  then have "(of_int (2 ^ nat (bitlen (int n) - 1)) :: rat) \<le> of_int (int n)"
    by (simp only: of_int_le_iff)
  then have "pow2 (bitlen (int n) - 1) \<le> of_nat n"
    using ge by (simp add: pow2_def)
  then show ?thesis
    by (simp add: floorLog2_def q b1 Let_def)
qed

lemma toDouble_of_nat_exact:
  assumes "n \<le> 2 ^ 53"
  shows "toDouble (of_nat n) = Num (of_nat n)"
proof (cases "n = 0")
  case True
  then show ?thesis by (simp add: toDouble_def)
next
  case False
  then have pos: "0 < n" by simp
  define e where "e = bitlen (int n) - 1"
  have fl: "floorLog2 (of_nat n) = e"
    using floorLog2_of_nat [OF pos] by (simp add: e_def)
  from pos have e0: "0 \<le> e"
    by (auto simp: e_def bitlen_alt_def)
  from pos bitlen_bounds [of "int n"] have lo: "2 ^ nat e \<le> int n"
    by (simp add: e_def)
  have "int n \<le> 2 ^ 53"
    using assms by (simp only: of_nat_le_iff [symmetric, where ?'a = int] of_nat_power of_nat_numeral)
  with lo have "(2::int) ^ nat e \<le> 2 ^ 53"
    by (rule order_trans)
  then have "nat e \<le> 53"
    by (intro power_le_imp_le_exp [of "2::int"]) simp
  then have e53: "e \<le> 53" by simp
  have ex: "\<exists>z::int. of_nat n / pow2 (e - 52) = (of_int z :: rat)"
  proof (cases "e \<le> 52")
    case True
    then have "pow2 (e - 52) = 1 / 2 ^ nat (52 - e)"
      by (cases "e = 52") (simp_all add: pow2_def)
    then have "of_nat n / pow2 (e - 52) = (of_int (int n * 2 ^ nat (52 - e)) :: rat)"
      by simp
    then show ?thesis by blast
  next
    case False
    with e53 have e: "e = 53" by simp
    with lo assms have "int n = 2 ^ 53" by simp
    then have "rat_of_int (int n) = rat_of_int (2 ^ 53)"
      by (simp only:)
    then have "(of_nat n :: rat) = 2 ^ 53"
      by simp
    then have "of_nat n / pow2 (e - 52) = (of_int (2 ^ 52) :: rat)"
      by (simp add: e pow2_def)
    then show ?thesis by blast
  qed
  then obtain z :: int where z: "of_nat n / pow2 (e - 52) = (of_int z :: rat)" ..
  then have v: "(of_int z :: rat) * pow2 (e - 52) = of_nat n"
    using pow2_pos [of "e - 52"] by (simp add: field_simps)
  have "rat_of_int (int n) \<le> rat_of_int (2 ^ 53)"
    using \<open>int n \<le> 2 ^ 53\<close> by (simp only: of_int_le_iff)
  then have "(of_nat n :: rat) \<le> 2 ^ 53"
    by simp
  also have "\<dots> < 2 ^ 1024" by simp
  finally have small: "\<not> pow2 1024 \<le> of_nat n"
    by (simp add: pow2_def)
  have mx: "max e (- 1022) = e" using e0 by simp
  show ?thesis
    using pos small by (simp add: toDouble_def fl mx Let_def z roundTiesToEven_of_int v)
qed

lemma roundTiesToEven_half:
  assumes "even z"
  shows "roundTiesToEven (of_int z + 1 / 2) = z"
proof -
  have "\<lfloor>rat_of_int z + 1 / 2\<rfloor> = z"
    by (rule floor_unique) simp_all
  with assms show ?thesis
    by (simp add: roundTiesToEven_def Let_def)
qed

lemma toDouble_above_2_53: "toDouble (of_nat (2 ^ 53 + 1)) = Num (of_nat (2 ^ 53))"
proof -
  define x :: rat where "x = of_nat (2 ^ 53 + 1)"
  have bl: "bitlen (2 ^ 53 + 1) = 54"
    using bitlen_twopow_add_eq [of 1 53] by simp
  have "floorLog2 (of_nat (2 ^ 53 + 1)) = bitlen (int (2 ^ 53 + 1)) - 1"
    by (rule floorLog2_of_nat) simp
  also have "int (2 ^ 53 + 1) = 2 ^ 53 + 1" by simp
  finally have fl: "floorLog2 x = 53"
    using bl by (simp add: x_def)
  have pos: "0 < x" "x \<noteq> 0" "\<bar>x\<bar> = x"
    by (simp_all add: x_def)
  have half: "x / pow2 1 = of_int (2 ^ 52) + 1 / 2"
    by (simp add: pow2_def x_def)
  have r: "roundTiesToEven (of_int (2 ^ 52) + 1 / 2) = 2 ^ 52"
    by (rule roundTiesToEven_half) simp
  have v: "rat_of_int (2 ^ 52) * pow2 1 = of_nat (2 ^ 53)"
    by (simp add: pow2_def)
  have small: "\<not> pow2 1024 \<le> of_nat (2 ^ 53)"
    by (simp add: pow2_def)
  have e: "max (floorLog2 \<bar>x\<bar>) (- 1022) - 52 = 1"
    by (simp add: pos fl)
  have "toDouble x = Num (of_nat (2 ^ 53))"
    unfolding toDouble_def Let_def e
    by (simp only: pos half r v small if_False if_True)
  then show ?thesis by (simp only: x_def)
qed


lemma digit_char:
  assumes "k < 10"
  shows "DIGIT_REGEX_CHAR (0x30 + of_nat k) \<and> digitValue (0x30 + of_nat k) = k"
proof -
  from assms have "k \<in> {0, 1, 2, 3, 4, 5, 6, 7, 8, 9}" by auto
  then show ?thesis
    by (auto simp: DIGIT_REGEX_CHAR_def digitValue_def)
qed

lemma decimal_digits: "list_all DIGIT_REGEX_CHAR (decimal n) \<and> decimal n \<noteq> []"
proof (induction n rule: decimal.induct)
  case (1 n)
  show ?case
  proof (cases "n < 10")
    case True
    then show ?thesis using digit_char [of n] by (simp add: decimal.simps [of n])
  next
    case False
    then show ?thesis using 1 digit_char [of "n mod 10"] by (simp add: decimal.simps [of n])
  qed
qed

lemma digitsValue_snoc: "digitsValue (ds @ [c]) = 10 * digitsValue ds + digitValue c"
  by (simp add: digitsValue_def)

lemma digitsValue_decimal: "digitsValue (decimal n) = n"
proof (induction n rule: decimal.induct)
  case (1 n)
  show ?case
  proof (cases "n < 10")
    case True
    then show ?thesis using digit_char [of n] by (simp add: decimal.simps [of n] digitsValue_def)
  next
    case False
    then show ?thesis using 1 digit_char [of "n mod 10"]
      by (simp add: decimal.simps [of n] digitsValue_snoc)
  qed
qed

lemma match_pt_decimal: "match_pt (js ''pt'' @ decimal n) = Some (decimal n)"
  using decimal_digits [of n] by (simp add: match_pt_def js_def)

lemma parsePt_decimal:
  "parsePtStringToNumber (Some (js ''pt'' @ decimal n)) d = toDouble (of_nat n)"
proof -
  have "js ''pt'' @ decimal n \<noteq> []"
    by (simp add: js_def)
  then show ?thesis
    by (simp add: parsePtStringToNumber_def match_pt_decimal parseInt_def digitsValue_decimal)
qed







section \<open>Properties of font resolution and of sample lines\<close>

lemmas char_defs = detectCharScript_def BENGALI_REGEX_CHAR_def ARABIC_REGEX_CHAR_def
  LATIN_REGEX_CHAR_def DIGIT_REGEX_CHAR_def COMMON_PUNCT_SPACE_REGEX_CHAR_def whitespace_def

lemma segments_price:
  "segments bn price =
     [\<lparr>seg_text = js ''Price: 100Tk '', seg_script = latin\<rparr>,
      \<lparr>seg_text = [0x09EB, 0x09E6, 0x09E6], seg_script = bengali\<rparr>]"
  by (simp add: price_def js_def segments_def firstCharScript_def char_defs Let_def)

text \<open>
  C2, as stated, fails. Under the declared language \<open>bn\<close> the segments of the sample
  text are not the three runs \<open>Price: \<close> (latin), \<open>100Tk \<close> (latin) and the Bengali
  digits (bengali), and there are not three of them: the digits of \<open>100\<close> join the
  latin segment that \<open>P\<close> opened, and \<open>T\<close> is latin too, so nothing closes that
  segment before the first Bengali digit.
\<close>

theorem price_three_runs_counterexample:
  "segments bn price \<noteq>
     [\<lparr>seg_text = js ''Price: '', seg_script = latin\<rparr>,
      \<lparr>seg_text = js ''100Tk '', seg_script = latin\<rparr>,
      \<lparr>seg_text = [0x09EB, 0x09E6, 0x09E6], seg_script = bengali\<rparr>]
   \<and> length (segments bn price) \<noteq> 3"
  by (simp add: segments_price)

lemma splitLines_price: "splitLines [] price = [price]"
  by (simp add: price_def js_def)

text \<open>
  C2, amended. Under the declared language \<open>bn\<close> the sample text has exactly two
  segments, in order: \<open>Price: 100Tk \<close> with its trailing space, of class latin, and the
  three Bengali digits, of class bengali. A span holding the text gives two text runs with
  these texts, in the fonts of the two classes.
\<close>

theorem price_two_runs:
  "segments bn price =
     [\<lparr>seg_text = js ''Price: 100Tk '', seg_script = latin\<rparr>,
      \<lparr>seg_text = [0x09EB, 0x09E6, 0x09E6], seg_script = bengali\<rparr>]
   \<and> map run_text (createTextRunsFromSpans [priceSpan] None None bn gdocs None) =
       [Some (js ''Price: 100Tk ''), Some [0x09EB, 0x09E6, 0x09E6]]
   \<and> map run_font (createTextRunsFromSpans [priceSpan] None None bn gdocs None) =
       [Some (js ''Open Sans''), Some (js ''Tiro Bangla'')]"
proof -
  have "span_text priceSpan = price"
    by (simp add: priceSpan_def)
  then show ?thesis
    by (simp add: createTextRunsFromSpans_def splitLines_price lineRuns_def segments_price
          segmentRun_def mapFontFamilyToDocx_def Let_def js_def)
qed

text \<open>
  C5 on the sample text: its segments are not the empty list, neighbours differ in script
  class and every text is non-empty.
\<close>

theorem segments_minimal_witness:
  "segments bn price \<noteq> []
   \<and> distinct_adj (map seg_script (segments bn price))
   \<and> list_all (\<lambda>g. seg_text g \<noteq> []) (segments bn price)"
  using segments_minimal [of bn price] by (simp add: segments_price list_all_iff)

text \<open>
  C10 on the sample text, which contains digits, spaces and a colon: none of its segments
  has the class \<open>digit\<close> or \<open>punct_space\<close>.
\<close>

theorem segments_never_neutral_witness:
  "segments bn price \<noteq> []
   \<and> list_all (\<lambda>g. seg_script g \<noteq> digit \<and> seg_script g \<noteq> punct_space) (segments bn price)"
  using segments_never_neutral [of bn price] by (simp add: segments_price list_all_iff)

text \<open>
  C6 on the line \<open>12, 3\<close>: it is not empty, each of its characters is a digit, a comma
  or a space, and under \<open>bn\<close> it is one bengali segment.
\<close>

theorem neutral_line_bn_witness:
  "js ''12, 3'' \<noteq> []
   \<and> list_all (\<lambda>c. detectCharScript c = punct_space \<or> detectCharScript c = digit) (js ''12, 3'')
   \<and> segments bn (js ''12, 3'') = [\<lparr>seg_text = js ''12, 3'', seg_script = bengali\<rparr>]"
proof -
  have a: "js ''12, 3'' \<noteq> []"
    by (simp add: js_def)
  have b: "list_all (\<lambda>c. detectCharScript c = punct_space \<or> detectCharScript c = digit) (js ''12, 3'')"
    by (simp add: js_def char_defs)
  from b have "\<forall>c\<in>set (js ''12, 3''). detectCharScript c = punct_space \<or> detectCharScript c = digit"
    by (simp only: list_all_iff)
  from neutral_line_bn [OF a this] a b show ?thesis by simp
qed

text \<open>
  C1, as stated, fails. For an Arabic run under the profile \<open>word\<close> with the hint
  \<open>arabic-modern-sans\<close>, which is not a curated Arabic font name, the code returns
  \<open>Arial\<close>; the resolution of the specification returns the fixed default of the profile
  for Arabic, \<open>Traditional Arabic\<close>.
\<close>

theorem font_hint_counterexample:
  "mapFontFamilyToDocx [] arabic (Some (js ''arabic-modern-sans'')) None None ar word = js ''Arial''
   \<and> resolveFont_spec arabic (Some (js ''arabic-modern-sans'')) word = js ''Traditional Arabic''
   \<and> js ''Arial'' \<noteq> js ''Traditional Arabic''"
  by (simp add: mapFontFamilyToDocx_def resolveFont_spec_def curatedFonts_def
        profileDefaultFont_def commonArabicFonts_def js_def)

text \<open>
  C1, amended. For a Bengali run the hint is never read: the result is the fixed default of
  the profile (\<open>SutonnyOMJ\<close> for \<open>word\<close>, \<open>Tiro Bangla\<close> for \<open>gdocs\<close>). For an Arabic
  run the hint is returned verbatim when it is one of \<open>commonArabicFonts\<close>; otherwise the
  profile \<open>word\<close> maps the hint \<open>arabic-modern-sans\<close> to \<open>Arial\<close>, and in every other
  case the result is the fixed default of the profile (\<open>Traditional Arabic\<close> for
  \<open>word\<close>, \<open>Noto Naskh Arabic\<close> for \<open>gdocs\<close>).
\<close>

theorem mapFontFamilyToDocx_hint:
  "mapFontFamilyToDocx t bengali hint w b l target = profileDefaultFont target bengali
   \<and> mapFontFamilyToDocx t arabic hint w b l target =
       (if truthy hint \<and> the hint \<in> set commonArabicFonts then the hint
        else if target = word \<and> hint = Some (js ''arabic-modern-sans'') then js ''Arial''
        else profileDefaultFont target arabic)
   \<and> profileDefaultFont word bengali = js ''SutonnyOMJ''
   \<and> profileDefaultFont gdocs bengali = js ''Tiro Bangla''
   \<and> profileDefaultFont word arabic = js ''Traditional Arabic''
   \<and> profileDefaultFont gdocs arabic = js ''Noto Naskh Arabic''"
proof -
  have distinct_names:
    "js ''arabic-modern-sans'' \<noteq> js ''arabic-naskh''"
    "js ''arabic-modern-sans'' \<noteq> js ''arabic''"
    "js ''arabic-modern-sans'' \<noteq> js ''arabic-kufi''"
    by (simp_all add: js_def)
  have defaults:
    "profileDefaultFont word bengali = js ''SutonnyOMJ''"
    "profileDefaultFont gdocs bengali = js ''Tiro Bangla''"
    "profileDefaultFont word arabic = js ''Traditional Arabic''"
    "profileDefaultFont gdocs arabic = js ''Noto Naskh Arabic''"
    by (simp_all add: mapFontFamilyToDocx_def profileDefaultFont_def)
  have beng: "mapFontFamilyToDocx t bengali hint w b l target = profileDefaultFont target bengali"
    by (cases target) (simp_all add: defaults, simp_all add: mapFontFamilyToDocx_def)
  have arab: "mapFontFamilyToDocx t arabic hint w b l target =
       (if truthy hint \<and> the hint \<in> set commonArabicFonts then the hint
        else if target = word \<and> hint = Some (js ''arabic-modern-sans'') then js ''Arial''
        else profileDefaultFont target arabic)"
    using distinct_names
    by (cases target) (simp_all add: defaults, auto simp: mapFontFamilyToDocx_def)
  from beng arab defaults show ?thesis by (simp only: simp_thms)
qed

text \<open>
  C1, amended, at the hint \<open>Cairo\<close> under \<open>gdocs\<close>: a curated Arabic name, returned
  verbatim for an Arabic run and ignored for a Bengali run.
\<close>

theorem mapFontFamilyToDocx_hint_witness:
  "truthy (Some (js ''Cairo'')) \<and> js ''Cairo'' \<in> set commonArabicFonts
   \<and> mapFontFamilyToDocx [] arabic (Some (js ''Cairo'')) None None ar gdocs = js ''Cairo''
   \<and> mapFontFamilyToDocx [] bengali (Some (js ''Cairo'')) None None bn gdocs = js ''Tiro Bangla''"
proof -
  have "truthy (Some (js ''Cairo'')) \<and> js ''Cairo'' \<in> set commonArabicFonts"
    by (simp add: commonArabicFonts_def js_def)
  then show ?thesis
    using mapFontFamilyToDocx_hint [of "[]" "Some (js ''Cairo'')" None None ar gdocs]
          mapFontFamilyToDocx_hint [of "[]" "Some (js ''Cairo'')" None None bn gdocs]
    by simp
qed

section \<open>Properties of the point sizes and of the cell borders\<close>

text \<open>
  C7, as stated, fails. For \<open>N = 2 ^ 53 + 1 = 9007199254740993\<close> the token
  \<open>pt9007199254740993\<close> gives \<open>9007199254740992\<close>, not \<open>N\<close>: the result of
  \<open>parseInt\<close> is a binary64 number, and \<open>N\<close> is not one.
\<close>

theorem parsePt_large_counterexample:
  "decimal 9007199254740993 = js ''9007199254740993''
   \<and> parsePtStringToNumber (Some (js ''pt'' @ decimal 9007199254740993)) (Num 11)
       = Num 9007199254740992
   \<and> parsePtStringToNumber (Some (js ''pt'' @ decimal 9007199254740993)) (Num 11)
       \<noteq> Num (of_nat 9007199254740993)"
proof -
  have d: "decimal 9007199254740993 = js ''9007199254740993''"
    by (simp add: decimal.simps js_def)
  have n: "(9007199254740993::nat) = 2 ^ 53 + 1"
    by simp
  have "toDouble (of_nat 9007199254740993) = Num (of_nat (2 ^ 53))"
    by (simp only: n toDouble_above_2_53)
  then have "parsePtStringToNumber (Some (js ''pt'' @ decimal 9007199254740993)) (Num 11)
       = Num 9007199254740992"
    by (simp add: parsePt_decimal)
  with d show ?thesis by simp
qed

text \<open>
  C7, amended. For every natural number \<open>N\<close> up to \<open>2 ^ 53\<close> and every default \<open>d\<close>,
  \<open>parsePtStringToNumber\<close> applied to \<open>pt\<close> followed by the decimal digits of \<open>N\<close>
  returns \<open>N\<close>. For every string that does not match \<open>pt<N>\<close>, and for an absent
  token, it returns \<open>d\<close>. The function has no failing branch: every path returns a
  number.
\<close>

theorem parsePtStringToNumber_pt:
  "(N \<le> 2 ^ 53 \<longrightarrow> parsePtStringToNumber (Some (js ''pt'' @ decimal N)) d = Num (of_nat N))
   \<and> (match_pt s = None \<longrightarrow> parsePtStringToNumber (Some s) d = d)
   \<and> parsePtStringToNumber None d = d"
proof (intro conjI impI)
  assume "N \<le> 2 ^ 53"
  then have "toDouble (of_nat N) = Num (of_nat N)"
    by (rule toDouble_of_nat_exact)
  then show "parsePtStringToNumber (Some (js ''pt'' @ decimal N)) d = Num (of_nat N)"
    by (simp only: parsePt_decimal)
next
  assume "match_pt s = None"
  then show "parsePtStringToNumber (Some s) d = d"
    by (simp add: parsePtStringToNumber_def)
next
  show "parsePtStringToNumber None d = d"
    by (simp add: parsePtStringToNumber_def)
qed

text \<open>
  C7, amended, at \<open>N = 72\<close>, the token \<open>12px\<close> and the default 11.
\<close>

theorem parsePtStringToNumber_pt_witness:
  "(72::nat) \<le> 2 ^ 53 \<and> decimal 72 = js ''72''
   \<and> parsePtStringToNumber (Some (js ''pt72'')) (Num 11) = Num 72
   \<and> match_pt (js ''12px'') = None
   \<and> parsePtStringToNumber (Some (js ''12px'')) (Num 11) = Num 11"
proof -
  have d: "decimal 72 = js ''72''"
    by (simp add: decimal.simps js_def)
  have m: "match_pt (js ''12px'') = None"
    by (simp add: match_pt_def js_def)
  have "js ''pt'' @ decimal 72 = js ''pt72''"
    by (simp add: d) (simp add: js_def)
  with d m parsePtStringToNumber_pt [of 72 "Num 11" "js ''12px''"] show ?thesis
    by simp
qed
















end
